theory Spec2Isabelle
  imports Main "HOL-Library.Word"
begin

section \<open>Go values behind the error interface\<close>

text \<open>
  The codec of \<^verbatim>\<open>gob.go\<close> handles values of Go's interface type \<^verbatim>\<open>error\<close>. Such a value
  is nil, or it holds a dynamic value: an object of a named type, a pointer to a value, or a
  nil pointer of some pointer type. What the code asks of a value is its type (through
  \<^verbatim>\<open>reflect\<close>) and the result of its \<^verbatim>\<open>Error()\<close> method, so an object carries both: the
  package path and name of its type, the outcome of \<^verbatim>\<open>Error()\<close> (\<open>None\<close> when the method
  itself panics, as it does on a zero \<^verbatim>\<open>net.OpError\<close>), and the rest of its fields.
  A nil pointer carries the type it points to and the outcome of \<^verbatim>\<open>Error()\<close> on the nil
  receiver. The three values that \<^verbatim>\<open>init\<close> hands to \<^verbatim>\<open>gob.Register\<close> directly are not
  errors; only their type is used.
\<close>

type_synonym byte = "8 word"

datatype gotype = TNamed string string | TPtr gotype

datatype goval =
    Obj string string "string option" "(string \<times> string) list"
  | PtrTo goval
  | NilPtr gotype "string option"

text \<open>An \<^verbatim>\<open>error\<close> (any interface value) is \<open>None\<close> for nil, \<open>Some v\<close> otherwise.\<close>

type_synonym error = "goval option"

datatype panic =
    NilDereference
  | ReflectValueError string
  | DvrFailure goval

fun TypeOf :: "goval \<Rightarrow> gotype" where
  "TypeOf (Obj pkg name m fs) = TNamed pkg name"
| "TypeOf (PtrTo v) = TPtr (TypeOf v)"
| "TypeOf (NilPtr t m) = TPtr t"

text \<open>
  Calling \<^verbatim>\<open>Error()\<close> on a non-nil error value. Through a pointer the call reaches the
  object; on a nil pointer it does what the type's method does with a nil receiver.
\<close>

fun Error_method :: "goval \<Rightarrow> panic + string" where
  "Error_method (Obj pkg name m fs) = (case m of None \<Rightarrow> Inl NilDereference | Some s \<Rightarrow> Inr s)"
| "Error_method (PtrTo v) = Error_method v"
| "Error_method (NilPtr t m) = (case m of None \<Rightarrow> Inl NilDereference | Some s \<Rightarrow> Inr s)"

subsection \<open>The part of package reflect that the codec uses\<close>

datatype Kind = Invalid | Interface | Ptr | OtherKind

datatype Value = ZeroValue | Val goval

fun ValueOf :: "error \<Rightarrow> Value" where
  "ValueOf None = ZeroValue"
| "ValueOf (Some v) = Val v"

fun Kind_of :: "Value \<Rightarrow> Kind" where
  "Kind_of ZeroValue = Invalid"
| "Kind_of (Val (Obj pkg name m fs)) = OtherKind"
| "Kind_of (Val (PtrTo v)) = Ptr"
| "Kind_of (Val (NilPtr t m)) = Ptr"

text \<open>\<^verbatim>\<open>Value.Elem\<close>: the pointee, the zero Value for a nil pointer, a panic on other kinds.\<close>

fun Elem :: "Value \<Rightarrow> panic + Value" where
  "Elem (Val (PtrTo v)) = Inr (Val v)"
| "Elem (Val (NilPtr t m)) = Inr ZeroValue"
| "Elem v = Inl (ReflectValueError ''reflect.Value.Elem'')"

text \<open>\<^verbatim>\<open>Value.Type\<close> panics on the zero Value.\<close>

fun Type :: "Value \<Rightarrow> panic + gotype" where
  "Type ZeroValue = Inl (ReflectValueError ''reflect.Value.Type'')"
| "Type (Val v) = Inr (TypeOf v)"

text \<open>\<^verbatim>\<open>Value.Interface\<close> panics on the zero Value.\<close>

fun Interface_of :: "Value \<Rightarrow> panic + goval" where
  "Interface_of ZeroValue = Inl (ReflectValueError ''reflect.Value.Interface'')"
| "Interface_of (Val v) = Inr v"

text \<open>\<^verbatim>\<open>Type.PkgPath\<close> and \<^verbatim>\<open>Type.Name\<close> are empty for a pointer type.\<close>

fun PkgPath :: "gotype \<Rightarrow> string" where
  "PkgPath (TNamed pkg name) = pkg"
| "PkgPath (TPtr t) = []"

fun Name :: "gotype \<Rightarrow> string" where
  "Name (TNamed pkg name) = name"
| "Name (TPtr t) = []"

text \<open>
  The type assertion \<^verbatim>\<open>value.Interface().(error)\<close>. The method set of a pointer to a named
  type contains the methods of that type, and the values walked are those stored in an
  \<^verbatim>\<open>error\<close>, so a pointer to an object asserts to \<^verbatim>\<open>error\<close>; a pointer to a pointer has
  no methods.
\<close>

fun asserts_error :: "goval \<Rightarrow> bool" where
  "asserts_error (Obj pkg name m fs) = True"
| "asserts_error (PtrTo (Obj pkg name m fs)) = True"
| "asserts_error (PtrTo v) = False"
| "asserts_error (NilPtr (TNamed pkg name) m) = True"
| "asserts_error (NilPtr (TPtr t) m) = False"

section \<open>The error wrapper of gob.go\<close>

text \<open>The import path of the package that declares \<^verbatim>\<open>gobSafeError\<close>.\<close>

definition package_path :: string where
  "package_path = ''github.com/michilu/go-gob-http''"

text \<open>\<^verbatim>\<open>type gobSafeError string\<close>: the conversion \<^verbatim>\<open>gobSafeError(s)\<close>; its \<^verbatim>\<open>Error()\<close> is \<open>s\<close>.\<close>

definition gobSafeError :: "string \<Rightarrow> goval" where
  "gobSafeError s = Obj package_path ''gobSafeError'' (Some s) []"

text \<open>\<^verbatim>\<open>errors.New(s)\<close>: a pointer to a fresh \<^verbatim>\<open>errors.errorString\<close> with the text \<open>s\<close>.\<close>

definition errors_New :: "string \<Rightarrow> goval" where
  "errors_New s = PtrTo (Obj ''errors'' ''errorString'' (Some s) [(''s'', s)])"

text \<open>
  The package-level state: \<^verbatim>\<open>encodableTypes\<close>, and the types handed to \<^verbatim>\<open>gob.Register\<close>
  (the registry of package gob, which the repository only writes to).
\<close>

record globals =
  encodableTypes :: "string \<rightharpoonup> bool"
  gobRegistered :: "gotype set"

definition gob_Register :: "globals \<Rightarrow> goval \<Rightarrow> globals" where
  "gob_Register G v = G\<lparr>gobRegistered := insert (TypeOf v) (gobRegistered G)\<rparr>"

text \<open>
  The loop of \<^verbatim>\<open>registerErrorType\<close>: while the value is an interface or a pointer, register
  it with gob when it is an error, then step to what it points to.
\<close>

function registerErrorType_loop :: "globals \<Rightarrow> Value \<Rightarrow> panic + (globals \<times> Value)" where
  "registerErrorType_loop G value =
     (if Kind_of value = Interface \<or> Kind_of value = Ptr then
        (case Interface_of value of
           Inl p \<Rightarrow> Inl p
         | Inr i \<Rightarrow>
             let G' = (if asserts_error i then gob_Register G i else G)
             in (case Elem value of
                   Inl p \<Rightarrow> Inl p
                 | Inr value' \<Rightarrow> registerErrorType_loop G' value'))
      else Inr (G, value))"
  by pat_completeness auto

text \<open>The number of indirections left below a Value bounds both walks.\<close>

fun indirections :: "Value \<Rightarrow> nat" where
  "indirections ZeroValue = 0"
| "indirections (Val v) = Suc (size v)"

lemma Elem_smaller: "Elem value = Inr value' \<Longrightarrow> indirections value' < indirections value"
  by (cases "value" rule: Elem.cases) auto

termination registerErrorType_loop
  by (relation "measure (\<lambda>(G, value). indirections value)") (auto dest: Elem_smaller)

definition type_id :: "gotype \<Rightarrow> string" where
  "type_id typ = PkgPath typ @ ''.'' @ Name typ"

definition registerErrorType :: "globals \<Rightarrow> error \<Rightarrow> panic + globals" where
  "registerErrorType G err =
     (case registerErrorType_loop G (ValueOf err) of
        Inl p \<Rightarrow> Inl p
      | Inr (G', value) \<Rightarrow>
          (case Type value of
             Inl p \<Rightarrow> Inl p
           | Inr typ \<Rightarrow>
               let id = type_id typ
               in Inr (G'\<lparr>encodableTypes := (encodableTypes G')(id \<mapsto> True)\<rparr>)))"

text \<open>\<^verbatim>\<open>new(T)\<close> for an error type \<open>T\<close>: a pointer to its zero value, of which only the
  type is looked at.\<close>

definition new :: "string \<Rightarrow> string \<Rightarrow> string option \<Rightarrow> error" where
  "new pkg name zero_message = Some (PtrTo (Obj pkg name zero_message []))"

text \<open>
  \<^verbatim>\<open>init\<close>: the registrations in their order, then three \<^verbatim>\<open>gob.Register\<close> calls. A panic
  of one call ends the sequence.
\<close>

fun registerAll :: "globals \<Rightarrow> error list \<Rightarrow> panic + globals" where
  "registerAll G [] = Inr G"
| "registerAll G (e # es) =
     (case registerErrorType G e of Inl p \<Rightarrow> Inl p | Inr G' \<Rightarrow> registerAll G' es)"

definition init_errors :: "error list" where
  "init_errors =
     [new package_path ''gobSafeError'' (Some []),
      new ''net/http'' ''ProtocolError'' (Some []),
      new ''net'' ''AddrError'' (Some []),
      new ''net'' ''DNSConfigError'' None,
      new ''net'' ''DNSError'' (Some ''lookup : ''),
      new ''net'' ''DNSError'' (Some ''lookup : ''),
      new ''net'' ''InvalidAddrError'' (Some []),
      new ''net'' ''OpError'' None,
      new ''net'' ''ParseError'' (Some ''invalid : ''),
      new ''net'' ''UnknownNetworkError'' (Some ''unknown network ''),
      new ''net/url'' ''Error'' (Some ('' '' @ [CHR 0x22, CHR 0x22] @ '': %!s(<nil>)'')),
      new ''net/url'' ''EscapeError'' (Some (''invalid URL escape '' @ [CHR 0x22, CHR 0x22]))]"

definition init :: "panic + globals" where
  "init =
     (case registerAll \<lparr>encodableTypes = Map.empty, gobRegistered = {}\<rparr> init_errors of
        Inl p \<Rightarrow> Inl p
      | Inr G \<Rightarrow>
          Inr (gob_Register
                (gob_Register
                  (gob_Register G (PtrTo (Obj ''crypto/rsa'' ''PublicKey'' None [])))
                  (PtrTo (Obj ''crypto/rsa'' ''PrivateKey'' None [])))
                (PtrTo (Obj ''net'' ''TCPAddr'' None []))))"

text \<open>\<^verbatim>\<open>gobError\<close> and \<^verbatim>\<open>gobRawError\<close>, the envelope that goes through gob.\<close>

record gobError =
  ge_Error :: error

record gobRawError =
  raw_Error :: error
  raw_ErrorsErrorString :: bool

text \<open>The loop of \<^verbatim>\<open>GobEncode\<close>: walk down to the raw object.\<close>

function GobEncode_loop :: "Value \<Rightarrow> panic + Value" where
  "GobEncode_loop value =
     (if Kind_of value = Interface \<or> Kind_of value = Ptr then
        (case Elem value of
           Inl p \<Rightarrow> Inl p
         | Inr value' \<Rightarrow> GobEncode_loop value')
      else Inr value)"
  by pat_completeness auto

termination GobEncode_loop
  by (relation "measure indirections") (auto dest: Elem_smaller)

text \<open>
  \<^verbatim>\<open>encoding/gob\<close> is outside the repository: the encoder and the decoder are parameters.
  \<open>gob_Encode\<close> stands for \<^verbatim>\<open>gob.NewEncoder(&buffer).Encode(&rawError)\<close> and returns the
  bytes of the buffer with the encoder's error; \<open>gob_Decode\<close> stands for
  \<^verbatim>\<open>gob.NewDecoder(buffer).Decode(&rawError)\<close> and returns the error, or the decoded
  envelope.
\<close>

type_synonym gob_encoder = "gobRawError \<Rightarrow> byte list \<times> error"
type_synonym gob_decoder = "byte list \<Rightarrow> goval + gobRawError"

definition GobEncode :: "gob_encoder \<Rightarrow> globals \<Rightarrow> gobError \<Rightarrow> panic + (byte list \<times> error)" where
  "GobEncode gob_Encode G g =
     (case ge_Error g of
        None \<Rightarrow> Inr ([], None)
      | Some e \<Rightarrow>
          (case GobEncode_loop (ValueOf (Some e)) of
             Inl p \<Rightarrow> Inl p
           | Inr value \<Rightarrow>
               (case Type value of
                  Inl p \<Rightarrow> Inl p
                | Inr typ \<Rightarrow>
                    let id = type_id typ;
                        rawError = \<lparr>raw_Error = Some e,
                                    raw_ErrorsErrorString = (id = ''errors.errorString'')\<rparr>
                    in if encodableTypes G id = None then
                         (case Error_method e of
                            Inl p \<Rightarrow> Inl p
                          | Inr m \<Rightarrow>
                              Inr (gob_Encode (rawError\<lparr>raw_Error := Some (gobSafeError m)\<rparr>)))
                       else Inr (gob_Encode rawError))))"

text \<open>
  \<^verbatim>\<open>GobDecode\<close> writes \<^verbatim>\<open>g.Error\<close> and returns an error: the result is the new \<open>g\<close> with
  the returned error, or a panic (\<^verbatim>\<open>rawError.Error.Error()\<close> on a nil interface).
\<close>

definition GobDecode :: "gob_decoder \<Rightarrow> gobError \<Rightarrow> byte list \<Rightarrow> panic + (gobError \<times> error)" where
  "GobDecode gob_Decode g data =
     (if length data = 0 then Inr (g\<lparr>ge_Error := None\<rparr>, None)
      else
        (case gob_Decode data of
           Inl err \<Rightarrow> Inr (g, Some err)
         | Inr rawError \<Rightarrow>
             if raw_ErrorsErrorString rawError then
               (case raw_Error rawError of
                  None \<Rightarrow> Inl NilDereference
                | Some e \<Rightarrow>
                    (case Error_method e of
                       Inl p \<Rightarrow> Inl p
                     | Inr m \<Rightarrow> Inr (g\<lparr>ge_Error := Some (errors_New m)\<rparr>, None)))
             else Inr (g\<lparr>ge_Error := raw_Error rawError\<rparr>, None)))"

section \<open>Requests, responses and their snapshots\<close>

text \<open>
  The fields of \<^verbatim>\<open>http.Request\<close>, \<^verbatim>\<open>http.Response\<close>, \<^verbatim>\<open>url.URL\<close> and
  \<^verbatim>\<open>tls.ConnectionState\<close> that the repository reads or writes, and the \<^verbatim>\<open>Body\<close> of a live
  request or response, which it leaves alone. A \<^verbatim>\<open>Body\<close> is an \<^verbatim>\<open>io.ReadCloser\<close>: what
  matters of it is the bytes that reading it to the end delivers and the error the reading
  ends with. A pointer that may be nil is an \<open>option\<close>. \<^verbatim>\<open>http.Header\<close> and
  \<^verbatim>\<open>url.Values\<close> are both \<^verbatim>\<open>map[string][]string\<close>. Field names carry the name of their
  struct as a prefix, since one name cannot be a field of two records.
\<close>

type_synonym go_int = "64 word"
type_synonym Header = "string \<rightharpoonup> string list"
type_synonym ReadCloser = "byte list \<times> error"

record URL =
  url_Scheme :: string
  url_Opaque :: string
  url_Host :: string
  url_Path :: string
  url_RawQuery :: string
  url_Fragment :: string

record ConnectionState =
  tls_Version :: "16 word"
  tls_HandshakeComplete :: bool
  tls_DidResume :: bool
  tls_CipherSuite :: "16 word"
  tls_NegotiatedProtocol :: string
  tls_ServerName :: string

record Request =
  req_Method :: string
  req_URL :: "URL option"
  req_Proto :: string
  req_ProtoMajor :: go_int
  req_ProtoMinor :: go_int
  req_Header :: Header
  req_Body :: "ReadCloser option"
  req_ContentLength :: "64 word"
  req_TransferEncoding :: "string list"
  req_Close :: bool
  req_Host :: string
  req_Form :: Header
  req_PostForm :: Header
  req_Trailer :: Header
  req_RemoteAddr :: string
  req_RequestURI :: string
  req_TLS :: "ConnectionState option"

record Response =
  resp_Status :: string
  resp_StatusCode :: go_int
  resp_Proto :: string
  resp_ProtoMajor :: go_int
  resp_ProtoMinor :: go_int
  resp_Header :: Header
  resp_Body :: "ReadCloser option"
  resp_ContentLength :: "64 word"
  resp_TransferEncoding :: "string list"
  resp_Close :: bool
  resp_Trailer :: Header
  resp_TLS :: "ConnectionState option"

text \<open>\<^verbatim>\<open>new(http.Request)\<close> and \<^verbatim>\<open>new(http.Response)\<close>: every field has its zero value.\<close>

definition new_Request :: Request where
  "new_Request =
     \<lparr>req_Method = [], req_URL = None, req_Proto = [], req_ProtoMajor = 0, req_ProtoMinor = 0,
      req_Header = Map.empty, req_Body = None, req_ContentLength = 0,
      req_TransferEncoding = [], req_Close = False, req_Host = [], req_Form = Map.empty,
      req_PostForm = Map.empty, req_Trailer = Map.empty, req_RemoteAddr = [],
      req_RequestURI = [], req_TLS = None\<rparr>"

definition new_Response :: Response where
  "new_Response =
     \<lparr>resp_Status = [], resp_StatusCode = 0, resp_Proto = [], resp_ProtoMajor = 0,
      resp_ProtoMinor = 0, resp_Header = Map.empty, resp_Body = None, resp_ContentLength = 0,
      resp_TransferEncoding = [], resp_Close = False, resp_Trailer = Map.empty,
      resp_TLS = None\<rparr>"

text \<open>
  \<^verbatim>\<open>gobRequest\<close> (exported as \<^verbatim>\<open>GobRequest\<close> in \<^verbatim>\<open>gob.go\<close>, with the same fields) and
  \<^verbatim>\<open>gobResponse\<close>.
\<close>

record gobRequest =
  greq_Method :: string
  greq_URL :: string
  greq_Proto :: string
  greq_ProtoMajor :: go_int
  greq_ProtoMinor :: go_int
  greq_Header :: Header
  greq_ContentLength :: "64 word"
  greq_TransferEncoding :: "string list"
  greq_Close :: bool
  greq_Host :: string
  greq_Form :: Header
  greq_PostForm :: Header
  greq_Trailer :: Header
  greq_RemoteAddr :: string
  greq_RequestURI :: string
  greq_TLS :: "ConnectionState option"
  greq_Body :: "byte list"
  greq_Error :: gobError

record gobResponse =
  gresp_Status :: string
  gresp_StatusCode :: go_int
  gresp_Proto :: string
  gresp_ProtoMajor :: go_int
  gresp_ProtoMinor :: go_int
  gresp_Header :: Header
  gresp_ContentLength :: "64 word"
  gresp_TransferEncoding :: "string list"
  gresp_Close :: bool
  gresp_Trailer :: Header
  gresp_TLS :: "ConnectionState option"
  gresp_Body :: "byte list"
  gresp_Error :: gobError

definition new_gobRequest :: gobRequest where
  "new_gobRequest =
     \<lparr>greq_Method = [], greq_URL = [], greq_Proto = [], greq_ProtoMajor = 0,
      greq_ProtoMinor = 0, greq_Header = Map.empty, greq_ContentLength = 0,
      greq_TransferEncoding = [], greq_Close = False, greq_Host = [], greq_Form = Map.empty,
      greq_PostForm = Map.empty, greq_Trailer = Map.empty, greq_RemoteAddr = [],
      greq_RequestURI = [], greq_TLS = None, greq_Body = [],
      greq_Error = \<lparr>ge_Error = None\<rparr>\<rparr>"

definition new_gobResponse :: gobResponse where
  "new_gobResponse =
     \<lparr>gresp_Status = [], gresp_StatusCode = 0, gresp_Proto = [], gresp_ProtoMajor = 0,
      gresp_ProtoMinor = 0, gresp_Header = Map.empty, gresp_ContentLength = 0,
      gresp_TransferEncoding = [], gresp_Close = False, gresp_Trailer = Map.empty,
      gresp_TLS = None, gresp_Body = [], gresp_Error = \<lparr>ge_Error = None\<rparr>\<rparr>"

text \<open>
  The version-specific files: with Go 1.3 or later (\<open>go13plus\<close>, the file golang_13plus.go) the TLS field is copied, before
  it the three functions do nothing.
\<close>

definition newGobRequestVS :: "bool \<Rightarrow> Request \<Rightarrow> gobRequest \<Rightarrow> gobRequest" where
  "newGobRequestVS go13plus req r = (if go13plus then r\<lparr>greq_TLS := req_TLS req\<rparr> else r)"

definition newGobResponseVS :: "bool \<Rightarrow> Response \<Rightarrow> gobResponse \<Rightarrow> gobResponse" where
  "newGobResponseVS go13plus resp r = (if go13plus then r\<lparr>gresp_TLS := resp_TLS resp\<rparr> else r)"

text \<open>
  \<^verbatim>\<open>req.URL.String()\<close>: the method of \<^verbatim>\<open>net/url\<close> reads the fields of its receiver, so a
  nil receiver is a nil dereference. On a URL it is the parameter \<open>url_String\<close>.
\<close>

definition URL_String :: "(URL \<Rightarrow> string) \<Rightarrow> URL option \<Rightarrow> panic + string" where
  "URL_String url_String u = (case u of None \<Rightarrow> Inl NilDereference | Some x \<Rightarrow> Inr (url_String x))"

text \<open>\<^verbatim>\<open>newGobRequest\<close> of the package dvr (the unnamed source file).\<close>

definition newGobRequest ::
  "(URL \<Rightarrow> string) \<Rightarrow> bool \<Rightarrow> Request option \<Rightarrow> panic + gobRequest option" where
  "newGobRequest url_String go13plus request =
     (case request of
        None \<Rightarrow> Inr None
      | Some req \<Rightarrow>
          (case URL_String url_String (req_URL req) of
             Inl p \<Rightarrow> Inl p
           | Inr u \<Rightarrow>
               Inr (Some (newGobRequestVS go13plus req
                 (new_gobRequest
                    \<lparr>greq_Method := req_Method req,
                     greq_URL := u,
                     greq_Proto := req_Proto req,
                     greq_ProtoMajor := req_ProtoMajor req,
                     greq_ProtoMinor := req_ProtoMinor req,
                     greq_Header := req_Header req,
                     greq_ContentLength := req_ContentLength req,
                     greq_TransferEncoding := req_TransferEncoding req,
                     greq_Close := req_Close req,
                     greq_Host := req_Host req,
                     greq_Form := req_Form req,
                     greq_PostForm := req_PostForm req,
                     greq_Trailer := req_Trailer req,
                     greq_RemoteAddr := req_RemoteAddr req,
                     greq_RequestURI := req_RequestURI req\<rparr>)))))"

text \<open>\<^verbatim>\<open>NewGobRequest\<close> of \<^verbatim>\<open>gob.go\<close>: the same statements under the exported name.\<close>

definition NewGobRequest ::
  "(URL \<Rightarrow> string) \<Rightarrow> bool \<Rightarrow> Request option \<Rightarrow> panic + gobRequest option" where
  "NewGobRequest url_String go13plus request =
     (case request of
        None \<Rightarrow> Inr None
      | Some req \<Rightarrow>
          (case URL_String url_String (req_URL req) of
             Inl p \<Rightarrow> Inl p
           | Inr u \<Rightarrow>
               Inr (Some (newGobRequestVS go13plus req
                 (new_gobRequest
                    \<lparr>greq_Method := req_Method req,
                     greq_URL := u,
                     greq_Proto := req_Proto req,
                     greq_ProtoMajor := req_ProtoMajor req,
                     greq_ProtoMinor := req_ProtoMinor req,
                     greq_Header := req_Header req,
                     greq_ContentLength := req_ContentLength req,
                     greq_TransferEncoding := req_TransferEncoding req,
                     greq_Close := req_Close req,
                     greq_Host := req_Host req,
                     greq_Form := req_Form req,
                     greq_PostForm := req_PostForm req,
                     greq_Trailer := req_Trailer req,
                     greq_RemoteAddr := req_RemoteAddr req,
                     greq_RequestURI := req_RequestURI req\<rparr>)))))"

definition newGobResponse :: "bool \<Rightarrow> Response option \<Rightarrow> gobResponse option" where
  "newGobResponse go13plus response =
     (case response of
        None \<Rightarrow> None
      | Some resp \<Rightarrow>
          Some (newGobResponseVS go13plus resp
            (new_gobResponse
               \<lparr>gresp_Status := resp_Status resp,
                gresp_StatusCode := resp_StatusCode resp,
                gresp_Proto := resp_Proto resp,
                gresp_ProtoMajor := resp_ProtoMajor resp,
                gresp_ProtoMinor := resp_ProtoMinor resp,
                gresp_Header := resp_Header resp,
                gresp_ContentLength := resp_ContentLength resp,
                gresp_TransferEncoding := resp_TransferEncoding resp,
                gresp_Close := resp_Close resp,
                gresp_Trailer := resp_Trailer resp\<rparr>)))"

subsection \<open>The query wrapper\<close>

record gobQuery =
  gq_Request :: "gobRequest option"
  gq_Response :: "gobResponse option"
  gq_Error :: gobError

text \<open>
  Modelled from the spec: the struct \<^verbatim>\<open>RequestResponse\<close> is declared in a file of the
  package that is not among the sources. The spec's reconstructed interaction result has a
  live request, a live response, the request body bytes and the error of reading them, the
  response body bytes and the error of reading them, and the round-trip error; the field
  names are those that \<^verbatim>\<open>gobQuery.RequestResponse\<close> assigns.
\<close>

record RequestResponse =
  rr_Request :: "Request option"
  rr_RequestBody :: "byte list"
  rr_RequestBodyError :: error
  rr_Response :: "Response option"
  rr_ResponseBody :: "byte list"
  rr_ResponseBodyError :: error
  rr_Error :: error

definition new_RequestResponse :: RequestResponse where
  "new_RequestResponse =
     \<lparr>rr_Request = None, rr_RequestBody = [], rr_RequestBodyError = None, rr_Response = None,
      rr_ResponseBody = [], rr_ResponseBodyError = None, rr_Error = None\<rparr>"

text \<open>
  Modelled from the spec: \<^verbatim>\<open>panicIfError\<close> is declared in a file of the package that is not
  among the sources. By the spec a URL-parse failure is fatal and is signalled as a
  non-recoverable failure, not as an error value; the test of the repository recovers a
  panic whose value is a \<^verbatim>\<open>*dvrFailure\<close>. So it panics with the error when the error is not
  nil and returns otherwise.
\<close>

definition panicIfError :: "error \<Rightarrow> panic + unit" where
  "panicIfError err = (case err of None \<Rightarrow> Inr () | Some e \<Rightarrow> Inl (DvrFailure e))"

definition requestResponseVS :: "bool \<Rightarrow> gobQuery \<Rightarrow> RequestResponse \<Rightarrow> RequestResponse" where
  "requestResponseVS go13plus g rr =
     (if go13plus then
        (let rr1 = (case gq_Request g of
                      None \<Rightarrow> rr
                    | Some r \<Rightarrow>
                        (case rr_Request rr of
                           None \<Rightarrow> rr
                         | Some request \<Rightarrow>
                             rr\<lparr>rr_Request := Some (request\<lparr>req_TLS := greq_TLS r\<rparr>)\<rparr>))
         in (case gq_Response g of
               None \<Rightarrow> rr1
             | Some r \<Rightarrow>
                 (case rr_Response rr1 of
                    None \<Rightarrow> rr1
                  | Some response \<Rightarrow>
                      rr1\<lparr>rr_Response := Some (response\<lparr>resp_TLS := gresp_TLS r\<rparr>)\<rparr>)))
      else rr)"

text \<open>
  \<^verbatim>\<open>url.Parse\<close> is outside the repository: the parameter \<open>url_Parse\<close> returns its two
  results, the URL pointer and the error. The first block of \<^verbatim>\<open>RequestResponse\<close> converts
  the request and may panic; the second converts the response.
\<close>

type_synonym url_parser = "string \<Rightarrow> URL option \<times> error"

definition convert_request :: "url_parser \<Rightarrow> gobQuery \<Rightarrow> RequestResponse \<Rightarrow> panic + RequestResponse" where
  "convert_request url_Parse g rr =
     (case gq_Request g of
        None \<Rightarrow> Inr rr
      | Some r \<Rightarrow>
          (case url_Parse (greq_URL r) of
             (u, err) \<Rightarrow>
               (case panicIfError err of
                  Inl p \<Rightarrow> Inl p
                | Inr returned \<Rightarrow>
                    Inr (rr\<lparr>rr_Request := Some (new_Request
                               \<lparr>req_Method := greq_Method r,
                                req_URL := u,
                                req_Proto := greq_Proto r,
                                req_ProtoMajor := greq_ProtoMajor r,
                                req_ProtoMinor := greq_ProtoMinor r,
                                req_Header := greq_Header r,
                                req_ContentLength := greq_ContentLength r,
                                req_TransferEncoding := greq_TransferEncoding r,
                                req_Close := greq_Close r,
                                req_Host := greq_Host r,
                                req_Form := greq_Form r,
                                req_PostForm := greq_PostForm r,
                                req_Trailer := greq_Trailer r,
                                req_RemoteAddr := greq_RemoteAddr r,
                                req_RequestURI := greq_RequestURI r\<rparr>),
                            rr_RequestBody := greq_Body r,
                            rr_RequestBodyError := ge_Error (greq_Error r)\<rparr>))))"

definition convert_response :: "gobQuery \<Rightarrow> RequestResponse \<Rightarrow> RequestResponse" where
  "convert_response g rr =
     (case gq_Response g of
        None \<Rightarrow> rr
      | Some r \<Rightarrow>
          rr\<lparr>rr_Response := Some (new_Response
                 \<lparr>resp_Status := gresp_Status r,
                  resp_StatusCode := gresp_StatusCode r,
                  resp_Proto := gresp_Proto r,
                  resp_ProtoMajor := gresp_ProtoMajor r,
                  resp_ProtoMinor := gresp_ProtoMinor r,
                  resp_Header := gresp_Header r,
                  resp_ContentLength := gresp_ContentLength r,
                  resp_TransferEncoding := gresp_TransferEncoding r,
                  resp_Close := gresp_Close r,
                  resp_Trailer := gresp_Trailer r\<rparr>),
              rr_ResponseBody := gresp_Body r,
              rr_ResponseBodyError := ge_Error (gresp_Error r)\<rparr>)"

text \<open>\<^verbatim>\<open>gobQuery.RequestResponse\<close>.\<close>

definition RequestResponse :: "url_parser \<Rightarrow> bool \<Rightarrow> gobQuery \<Rightarrow> panic + RequestResponse" where
  "RequestResponse url_Parse go13plus g =
     (case convert_request url_Parse g new_RequestResponse of
        Inl p \<Rightarrow> Inl p
      | Inr rr1 \<Rightarrow>
          let rr2 = convert_response g rr1;
              rr3 = requestResponseVS go13plus g rr2
          in Inr (rr3\<lparr>rr_Error := ge_Error (gq_Error g)\<rparr>))"

section \<open>Instances of the external parameters\<close>

text \<open>
  The theorems below hold for any encoder and decoder. To run the codec on concrete
  errors, the parameters are instantiated with a small serializer of the same shape as
  gob's: it writes the flag, then the type and the message of the object the payload
  points to, and reads them back into a pointer to a fresh object. It is not gob's
  wire format.
\<close>

definition put_string :: "string \<Rightarrow> byte list" where
  "put_string s = of_nat (length s) # map of_char s"

fun get_string :: "byte list \<Rightarrow> (string \<times> byte list) option" where
  "get_string [] = None"
| "get_string (n # bs) =
     (if length bs < unat n then None
      else Some (map (\<lambda>b. char_of (unat b)) (take (unat n) bs), drop (unat n) bs))"

fun pointee :: "goval \<Rightarrow> goval option" where
  "pointee (Obj pkg name m fs) = Some (Obj pkg name m fs)"
| "pointee (PtrTo v) = pointee v"
| "pointee (NilPtr t m) = None"

definition sample_error :: goval where
  "sample_error = errors_New ''sample codec: malformed input''"

definition sample_Encode :: gob_encoder where
  "sample_Encode rawError =
     (let flag = (if raw_ErrorsErrorString rawError then 1 else 0) in
      case raw_Error rawError of
        None \<Rightarrow> ([flag, 0], None)
      | Some e \<Rightarrow>
          (case pointee e of
             Some (Obj pkg name (Some m) fs) \<Rightarrow>
               if length pkg < 256 \<and> length name < 256 \<and> length m < 256
               then ([flag, 1] @ put_string pkg @ put_string name @ put_string m, None)
               else ([], Some sample_error)
           | _ \<Rightarrow> ([], Some sample_error)))"

definition sample_Decode :: gob_decoder where
  "sample_Decode data =
     (case data of
        flag # present # rest \<Rightarrow>
          if 1 < flag \<or> 1 < present then Inl sample_error
          else if present = 0 then
            (if rest = [] then Inr \<lparr>raw_Error = None, raw_ErrorsErrorString = (flag = 1)\<rparr>
             else Inl sample_error)
          else
            (case get_string rest of
               None \<Rightarrow> Inl sample_error
             | Some (pkg, rest1) \<Rightarrow>
                 (case get_string rest1 of
                    None \<Rightarrow> Inl sample_error
                  | Some (name, rest2) \<Rightarrow>
                      (case get_string rest2 of
                         None \<Rightarrow> Inl sample_error
                       | Some (m, rest3) \<Rightarrow>
                           if rest3 = []
                           then Inr \<lparr>raw_Error = Some (PtrTo (Obj pkg name (Some m) [])),
                                     raw_ErrorsErrorString = (flag = 1)\<rparr>
                           else Inl sample_error)))
      | _ \<Rightarrow> Inl sample_error)"

text \<open>
  \<^verbatim>\<open>URL.String\<close> and \<^verbatim>\<open>url.Parse\<close> are parameters as well. To run the snapshot
  functions they are instantiated with a printer and a parser of URLs of the shape
  \<^verbatim>\<open>scheme://host/path\<close>; like \<^verbatim>\<open>url.Parse\<close>, the parser reports a missing scheme. A
  request with every field set serves as the live request.
\<close>

definition sample_url_String :: "URL \<Rightarrow> string" where
  "sample_url_String u = url_Scheme u @ ''://'' @ url_Host u @ url_Path u"

definition sample_url_Parse :: url_parser where
  "sample_url_Parse s =
     (let scheme = takeWhile (\<lambda>c. c \<noteq> CHR '':'') s;
          rest = dropWhile (\<lambda>c. c \<noteq> CHR '':'') s
      in if scheme = [] \<or> take 3 rest \<noteq> ''://''
         then (None, Some (PtrTo (Obj ''net/url'' ''Error'' (Some ''missing protocol scheme'') [])))
         else
           (Some \<lparr>url_Scheme = scheme, url_Opaque = [],
                  url_Host = takeWhile (\<lambda>c. c \<noteq> CHR ''/'') (drop 3 rest),
                  url_Path = dropWhile (\<lambda>c. c \<noteq> CHR ''/'') (drop 3 rest),
                  url_RawQuery = [], url_Fragment = []\<rparr>,
            None))"

definition sample_URL :: URL where
  "sample_URL =
     \<lparr>url_Scheme = ''https'', url_Opaque = [], url_Host = ''example.com'', url_Path = ''/items'',
      url_RawQuery = [], url_Fragment = []\<rparr>"

definition sample_TLS :: ConnectionState where
  "sample_TLS =
     \<lparr>tls_Version = 771, tls_HandshakeComplete = True, tls_DidResume = False,
      tls_CipherSuite = 49199, tls_NegotiatedProtocol = ''http/1.1'',
      tls_ServerName = ''example.com''\<rparr>"

definition sample_Request :: Request where
  "sample_Request =
     \<lparr>req_Method = ''POST'', req_URL = Some sample_URL, req_Proto = ''HTTP/1.1'',
      req_ProtoMajor = 1, req_ProtoMinor = 1,
      req_Header = [''Content-Type'' \<mapsto> [''text/plain'']],
      req_Body = Some ([104, 105], None), req_ContentLength = 2,
      req_TransferEncoding = [''chunked''], req_Close = True, req_Host = ''example.com'',
      req_Form = [''a'' \<mapsto> [''1'']], req_PostForm = [''b'' \<mapsto> [''2'']],
      req_Trailer = [''Expires'' \<mapsto> [''never'']], req_RemoteAddr = ''10.0.0.1:4000'',
      req_RequestURI = ''/items'', req_TLS = Some sample_TLS\<rparr>"


definition customError :: "string \<Rightarrow> goval" where
  "customError s = Obj ''github.com/orchestrate-io/dvr'' ''customError'' (Some s) []"


section \<open>Notions used to state the properties\<close>

text \<open>The type identifier that \<^verbatim>\<open>GobEncode\<close> computes for a non-nil error.\<close>

definition concrete_type_id :: "goval \<Rightarrow> panic + string" where
  "concrete_type_id e =
     (case GobEncode_loop (ValueOf (Some e)) of
        Inl p \<Rightarrow> Inl p
      | Inr value \<Rightarrow> (case Type value of Inl p \<Rightarrow> Inl p | Inr typ \<Rightarrow> Inr (type_id typ)))"


text \<open>
  Encoding an error and decoding the bytes into a fresh \<^verbatim>\<open>gobError\<close>, as the tests do:
  a panic, an error returned by either step, or the decoded error.
\<close>

datatype trip = Panicked panic | Failed goval | Decoded error

definition round_trip :: "gob_encoder \<Rightarrow> gob_decoder \<Rightarrow> globals \<Rightarrow> error \<Rightarrow> trip" where
  "round_trip gob_Encode gob_Decode G e =
     (case GobEncode gob_Encode G \<lparr>ge_Error = e\<rparr> of
        Inl p \<Rightarrow> Panicked p
      | Inr (data, Some err) \<Rightarrow> Failed err
      | Inr (data, None) \<Rightarrow>
          (case GobDecode gob_Decode \<lparr>ge_Error = None\<rparr> data of
             Inl p \<Rightarrow> Panicked p
           | Inr (g, Some err) \<Rightarrow> Failed err
           | Inr (g, None) \<Rightarrow> Decoded (ge_Error g)))"

text \<open>Two errors agree in type identifier and in message.\<close>

definition same_type_and_message :: "error \<Rightarrow> error \<Rightarrow> bool" where
  "same_type_and_message a b =
     (case a of
        None \<Rightarrow> b = None
      | Some x \<Rightarrow>
          (case b of
             None \<Rightarrow> False
           | Some y \<Rightarrow> concrete_type_id x = concrete_type_id y \<and> Error_method x = Error_method y))"

text \<open>
  What is asked of the serializer for one envelope: it encodes it without an error into
  at least one byte, and decodes those bytes into an envelope with the same flag and a
  payload of the same type and message.
\<close>

definition carries :: "gob_encoder \<Rightarrow> gob_decoder \<Rightarrow> gobRawError \<Rightarrow> bool" where
  "carries gob_Encode gob_Decode rawError =
     (case gob_Encode rawError of
        (data, err) \<Rightarrow>
          err = None \<and> data \<noteq> [] \<and>
          (case gob_Decode data of
             Inl x \<Rightarrow> False
           | Inr rawError' \<Rightarrow>
               raw_ErrorsErrorString rawError' = raw_ErrorsErrorString rawError \<and>
               same_type_and_message (raw_Error rawError') (raw_Error rawError)))"

text \<open>The package-level state once \<^verbatim>\<open>init\<close> has run (see \<open>init_value\<close>).\<close>

definition initial :: globals where
  "initial = (case init of Inl p \<Rightarrow> \<lparr>encodableTypes = Map.empty, gobRegistered = {}\<rparr> | Inr G \<Rightarrow> G)"

text \<open>
  Building the snapshot of a live request and reconstructing from a query that holds only
  that snapshot.
\<close>

definition snapshot_and_reconstruct ::
  "(URL \<Rightarrow> string) \<Rightarrow> url_parser \<Rightarrow> bool \<Rightarrow> Request option \<Rightarrow> panic + RequestResponse" where
  "snapshot_and_reconstruct url_String url_Parse go13plus request =
     (case newGobRequest url_String go13plus request of
        Inl p \<Rightarrow> Inl p
      | Inr snapshot \<Rightarrow>
          RequestResponse url_Parse go13plus
            \<lparr>gq_Request = snapshot, gq_Response = None, gq_Error = \<lparr>ge_Error = None\<rparr>\<rparr>)"

text \<open>The URL of the request snapshot, if there is one, parses without an error.\<close>

definition request_parses :: "url_parser \<Rightarrow> gobQuery \<Rightarrow> bool" where
  "request_parses url_Parse g =
     (case gq_Request g of None \<Rightarrow> True | Some r \<Rightarrow> snd (url_Parse (greq_URL r)) = None)"

section \<open>The two walks, one indirection at a time\<close>

declare GobEncode_loop.simps [simp del] registerErrorType_loop.simps [simp del]

lemma GobEncode_loop_Zero: "GobEncode_loop ZeroValue = Inr ZeroValue"
  by (subst GobEncode_loop.simps) simp

lemma GobEncode_loop_Obj: "GobEncode_loop (Val (Obj pkg name m fs)) = Inr (Val (Obj pkg name m fs))"
  by (subst GobEncode_loop.simps) simp

lemma GobEncode_loop_PtrTo: "GobEncode_loop (Val (PtrTo v)) = GobEncode_loop (Val v)"
  by (subst GobEncode_loop.simps) simp

lemma GobEncode_loop_NilPtr: "GobEncode_loop (Val (NilPtr t m)) = Inr ZeroValue"
  by (subst GobEncode_loop.simps) (simp add: GobEncode_loop_Zero)

lemma registerErrorType_loop_Zero: "registerErrorType_loop G ZeroValue = Inr (G, ZeroValue)"
  by (subst registerErrorType_loop.simps) simp

lemma registerErrorType_loop_Obj:
  "registerErrorType_loop G (Val (Obj pkg name m fs)) = Inr (G, Val (Obj pkg name m fs))"
  by (subst registerErrorType_loop.simps) simp

lemma registerErrorType_loop_PtrTo:
  "registerErrorType_loop G (Val (PtrTo v)) =
     registerErrorType_loop (if asserts_error (PtrTo v) then gob_Register G (PtrTo v) else G) (Val v)"
  by (subst registerErrorType_loop.simps) simp

lemma registerErrorType_loop_NilPtr:
  "registerErrorType_loop G (Val (NilPtr t m)) =
     Inr (if asserts_error (NilPtr t m) then gob_Register G (NilPtr t m) else G, ZeroValue)"
  by (subst registerErrorType_loop.simps) (simp add: registerErrorType_loop_Zero)

lemmas loop_simps =
  GobEncode_loop_Zero GobEncode_loop_Obj GobEncode_loop_PtrTo GobEncode_loop_NilPtr
  registerErrorType_loop_Zero registerErrorType_loop_Obj registerErrorType_loop_PtrTo
  registerErrorType_loop_NilPtr

lemma concrete_type_id_Obj: "concrete_type_id (Obj pkg name m fs) = Inr (pkg @ ''.'' @ name)"
  by (simp add: concrete_type_id_def loop_simps type_id_def)

lemma concrete_type_id_PtrTo: "concrete_type_id (PtrTo v) = concrete_type_id v"
  by (simp add: concrete_type_id_def loop_simps)

lemma concrete_type_id_NilPtr:
  "concrete_type_id (NilPtr t m) = Inl (ReflectValueError ''reflect.Value.Type'')"
  by (simp add: concrete_type_id_def loop_simps)

lemma init_value: "init = Inr initial"
  by (simp add: initial_def init_def init_errors_def new_def registerErrorType_def loop_simps
      gob_Register_def type_id_def package_path_def)

lemma initial_errorString: "encodableTypes initial ''errors.errorString'' = None"
  by (simp add: initial_def init_def init_errors_def new_def registerErrorType_def loop_simps
      gob_Register_def type_id_def package_path_def)

lemma initial_gobSafeError: "encodableTypes initial (package_path @ ''.gobSafeError'') = Some True"
  by (simp add: initial_def init_def init_errors_def new_def registerErrorType_def loop_simps
      gob_Register_def type_id_def package_path_def)


lemma GobEncode_Some:
  "GobEncode gob_Encode G \<lparr>ge_Error = Some e\<rparr> =
     (case concrete_type_id e of
        Inl p \<Rightarrow> Inl p
      | Inr tid \<Rightarrow>
          if encodableTypes G tid = None then
            (case Error_method e of
               Inl p \<Rightarrow> Inl p
             | Inr m \<Rightarrow>
                 Inr (gob_Encode \<lparr>raw_Error = Some (gobSafeError m),
                                   raw_ErrorsErrorString = (tid = ''errors.errorString'')\<rparr>))
          else Inr (gob_Encode \<lparr>raw_Error = Some e,
                                  raw_ErrorsErrorString = (tid = ''errors.errorString'')\<rparr>))"
  by (simp add: GobEncode_def concrete_type_id_def Let_def split: sum.splits)

lemma concrete_type_id_errors_New: "concrete_type_id (errors_New s) = Inr ''errors.errorString''"
  by (simp add: errors_New_def concrete_type_id_PtrTo concrete_type_id_Obj)

lemma concrete_type_id_gobSafeError:
  "concrete_type_id (gobSafeError s) = Inr (package_path @ ''.gobSafeError'')"
  by (simp add: gobSafeError_def concrete_type_id_Obj)

lemma Error_method_errors_New: "Error_method (errors_New s) = Inr s"
  by (simp add: errors_New_def)

lemma Error_method_gobSafeError: "Error_method (gobSafeError s) = Inr s"
  by (simp add: gobSafeError_def)





section \<open>Decoding what the serializer carried\<close>

lemma GobDecode_carried:
  assumes "data \<noteq> []" and "gob_Decode data = Inr rawError"
  shows "GobDecode gob_Decode g data =
     (if raw_ErrorsErrorString rawError then
        (case raw_Error rawError of
           None \<Rightarrow> Inl NilDereference
         | Some e \<Rightarrow>
             (case Error_method e of
                Inl p \<Rightarrow> Inl p
              | Inr m \<Rightarrow> Inr (g\<lparr>ge_Error := Some (errors_New m)\<rparr>, None)))
      else Inr (g\<lparr>ge_Error := raw_Error rawError\<rparr>, None))"
  using assms by (simp add: GobDecode_def)

lemma carries_elim:
  assumes "carries gob_Encode gob_Decode rawError" and "raw_Error rawError = Some e"
  obtains data p where "gob_Encode rawError = (data, None)" and "data \<noteq> []"
    and "gob_Decode data =
           Inr \<lparr>raw_Error = Some p, raw_ErrorsErrorString = raw_ErrorsErrorString rawError\<rparr>"
    and "concrete_type_id p = concrete_type_id e" and "Error_method p = Error_method e"
proof -
  obtain data err where enc: "gob_Encode rawError = (data, err)" by (cases "gob_Encode rawError")
  with assms(1) have err: "err = None" and ne: "data \<noteq> []"
    by (simp_all add: carries_def)
  from assms(1) enc obtain rawError' where dec: "gob_Decode data = Inr rawError'"
    and flag: "raw_ErrorsErrorString rawError' = raw_ErrorsErrorString rawError"
    and same: "same_type_and_message (raw_Error rawError') (raw_Error rawError)"
    by (auto simp: carries_def split: sum.splits)
  from same assms(2) obtain p where p: "raw_Error rawError' = Some p"
    and "concrete_type_id p = concrete_type_id e" and "Error_method p = Error_method e"
    by (auto simp: same_type_and_message_def split: option.splits)
  moreover from p flag
  have "rawError' = \<lparr>raw_Error = Some p, raw_ErrorsErrorString = raw_ErrorsErrorString rawError\<rparr>"
    by (cases rawError') simp
  ultimately show thesis using that enc err ne dec by simp
qed

lemma errors_New_round_trip:
  assumes "carries gob_Encode gob_Decode
             \<lparr>raw_Error = Some (if encodableTypes G ''errors.errorString'' = None
                                 then gobSafeError s else errors_New s),
              raw_ErrorsErrorString = True\<rparr>"
  shows "GobEncode gob_Encode G \<lparr>ge_Error = Some (errors_New s)\<rparr> =
           Inr (gob_Encode
                 \<lparr>raw_Error = Some (if encodableTypes G ''errors.errorString'' = None
                                     then gobSafeError s else errors_New s),
                  raw_ErrorsErrorString = True\<rparr>) \<and>
         round_trip gob_Encode gob_Decode G (Some (errors_New s)) = Decoded (Some (errors_New s))"
proof -
  let ?payload = "if encodableTypes G ''errors.errorString'' = None
                  then gobSafeError s else errors_New s"
  let ?raw = "\<lparr>raw_Error = Some ?payload, raw_ErrorsErrorString = True\<rparr>"
  have enc: "GobEncode gob_Encode G \<lparr>ge_Error = Some (errors_New s)\<rparr> = Inr (gob_Encode ?raw)"
    by (simp add: GobEncode_Some concrete_type_id_errors_New Error_method_errors_New)
  have msg: "Error_method ?payload = Inr s"
    by (simp add: Error_method_errors_New Error_method_gobSafeError)
  from assms obtain data p where bytes: "gob_Encode ?raw = (data, None)" and ne: "data \<noteq> []"
    and dec: "gob_Decode data = Inr \<lparr>raw_Error = Some p, raw_ErrorsErrorString = True\<rparr>"
    and pm: "Error_method p = Error_method ?payload"
    by (rule carries_elim [where e = ?payload]) simp_all
  from pm msg have "Error_method p = Inr s" by simp
  with GobDecode_carried
    [where gob_Decode = gob_Decode and g = "\<lparr>ge_Error = None\<rparr>", OF ne dec]
  have "GobDecode gob_Decode \<lparr>ge_Error = None\<rparr> data =
          Inr (\<lparr>ge_Error = Some (errors_New s)\<rparr>, None)"
    by simp
  with enc bytes have "round_trip gob_Encode gob_Decode G (Some (errors_New s)) =
      Decoded (Some (errors_New s))"
    by (simp add: round_trip_def)
  with enc show ?thesis by simp
qed

lemma sample_carries_Expected:
  "carries sample_Encode sample_Decode
     \<lparr>raw_Error = Some (gobSafeError ''Expected''), raw_ErrorsErrorString = True\<rparr>"
  by code_simp

lemma initial_customError:
  "encodableTypes initial ''github.com/orchestrate-io/dvr.customError'' = None"
  by (simp add: initial_def init_def init_errors_def new_def registerErrorType_def loop_simps
      gob_Register_def type_id_def package_path_def)

text \<open>
  A sample that is not a pointer is entered in \<^verbatim>\<open>encodableTypes\<close> without any
  \<^verbatim>\<open>gob.Register\<close> call: the loop body does not run.
\<close>

lemma registerErrorType_value_sample:
  "registerErrorType G (Some (Obj pkg name m fs)) =
     Inr (G\<lparr>encodableTypes := (encodableTypes G)(pkg @ ''.'' @ name \<mapsto> True)\<rparr>)"
  by (simp add: registerErrorType_def loop_simps type_id_def)






section \<open>Properties of the error codec\<close>




text \<open>
  C2, as amended: for an error whose type is not in \<^verbatim>\<open>encodableTypes\<close> and is not
  \<^verbatim>\<open>errors.errorString\<close>, the envelope handed to the serializer holds
  \<^verbatim>\<open>gobSafeError\<close> of the error's message and nothing else of the error, and decoding
  gives an error of type \<^verbatim>\<open>gobSafeError\<close> with that message, not of the original type
  (\<^verbatim>\<open>gobSafeError\<close> itself is registered from \<^verbatim>\<open>init\<close> on).
\<close>

theorem unregistered_round_trip:
  assumes ty: "concrete_type_id e = Inr tid"
    and unreg: "encodableTypes G tid = None"
    and safe: "encodableTypes G (package_path @ ''.gobSafeError'') \<noteq> None"
    and bare: "tid \<noteq> ''errors.errorString''"
    and msg: "Error_method e = Inr m"
    and gob: "carries gob_Encode gob_Decode
                \<lparr>raw_Error = Some (gobSafeError m), raw_ErrorsErrorString = False\<rparr>"
  shows "GobEncode gob_Encode G \<lparr>ge_Error = Some e\<rparr> =
           Inr (gob_Encode \<lparr>raw_Error = Some (gobSafeError m), raw_ErrorsErrorString = False\<rparr>) \<and>
         (\<exists>r. round_trip gob_Encode gob_Decode G (Some e) = Decoded (Some r) \<and>
            Error_method r = Inr m \<and>
            concrete_type_id r = Inr (package_path @ ''.gobSafeError'') \<and>
            concrete_type_id r \<noteq> concrete_type_id e)"
proof -
  let ?raw = "\<lparr>raw_Error = Some (gobSafeError m), raw_ErrorsErrorString = False\<rparr>"
  from ty unreg bare msg
  have enc: "GobEncode gob_Encode G \<lparr>ge_Error = Some e\<rparr> = Inr (gob_Encode ?raw)"
    by (simp add: GobEncode_Some)
  from gob obtain data p where bytes: "gob_Encode ?raw = (data, None)" and ne: "data \<noteq> []"
    and dec: "gob_Decode data = Inr \<lparr>raw_Error = Some p, raw_ErrorsErrorString = False\<rparr>"
    and pt: "concrete_type_id p = concrete_type_id (gobSafeError m)"
    and pm: "Error_method p = Error_method (gobSafeError m)"
    by (rule carries_elim [where e = "gobSafeError m"]) simp_all
  from GobDecode_carried
    [where gob_Decode = gob_Decode and g = "\<lparr>ge_Error = None\<rparr>", OF ne dec]
  have "GobDecode gob_Decode \<lparr>ge_Error = None\<rparr> data = Inr (\<lparr>ge_Error = Some p\<rparr>, None)"
    by simp
  with enc bytes have trip: "round_trip gob_Encode gob_Decode G (Some e) = Decoded (Some p)"
    by (simp add: round_trip_def)
  from pt have p_type: "concrete_type_id p = Inr (package_path @ ''.gobSafeError'')"
    by (simp add: concrete_type_id_gobSafeError)
  from unreg safe have "tid \<noteq> package_path @ ''.gobSafeError''" by auto
  with p_type ty have "concrete_type_id p \<noteq> concrete_type_id e" by simp
  moreover from pm have "Error_method p = Inr m" by (simp add: Error_method_gobSafeError)
  ultimately show ?thesis using enc trip p_type by blast
qed

theorem unregistered_round_trip_witness:
  "concrete_type_id (customError ''Unexpected'') = Inr ''github.com/orchestrate-io/dvr.customError'' \<and>
   encodableTypes initial ''github.com/orchestrate-io/dvr.customError'' = None \<and>
   encodableTypes initial (package_path @ ''.gobSafeError'') \<noteq> None \<and>
   ''github.com/orchestrate-io/dvr.customError'' \<noteq> ''errors.errorString'' \<and>
   Error_method (customError ''Unexpected'') = Inr ''Unexpected'' \<and>
   carries sample_Encode sample_Decode
     \<lparr>raw_Error = Some (gobSafeError ''Unexpected''), raw_ErrorsErrorString = False\<rparr> \<and>
   GobEncode sample_Encode initial \<lparr>ge_Error = Some (customError ''Unexpected'')\<rparr> =
     Inr (sample_Encode
           \<lparr>raw_Error = Some (gobSafeError ''Unexpected''), raw_ErrorsErrorString = False\<rparr>) \<and>
   (\<exists>r. round_trip sample_Encode sample_Decode initial (Some (customError ''Unexpected'')) =
          Decoded (Some r) \<and>
        Error_method r = Inr ''Unexpected'' \<and>
        concrete_type_id r = Inr (package_path @ ''.gobSafeError'') \<and>
        concrete_type_id r \<noteq> concrete_type_id (customError ''Unexpected''))"
proof -
  have ty: "concrete_type_id (customError ''Unexpected'') =
              Inr ''github.com/orchestrate-io/dvr.customError''"
    by (simp add: customError_def concrete_type_id_Obj)
  have safe: "encodableTypes initial (package_path @ ''.gobSafeError'') \<noteq> None"
    by (simp add: initial_gobSafeError)
  have bare: "''github.com/orchestrate-io/dvr.customError'' \<noteq> ''errors.errorString''" by simp
  have msg: "Error_method (customError ''Unexpected'') = Inr ''Unexpected''"
    by (simp add: customError_def)
  have gob: "carries sample_Encode sample_Decode
     \<lparr>raw_Error = Some (gobSafeError ''Unexpected''), raw_ErrorsErrorString = False\<rparr>"
    by code_simp
  from unregistered_round_trip [OF ty initial_customError safe bare msg gob]
    ty initial_customError safe msg gob
  show ?thesis by simp
qed

text \<open>
  C2 as stated fails on a bare string-message error: after \<^verbatim>\<open>init\<close> its type is not in
  \<^verbatim>\<open>encodableTypes\<close>, and it comes back as \<^verbatim>\<open>errors.errorString\<close>, its original
  type, not as \<^verbatim>\<open>gobSafeError\<close>.
\<close>

theorem unregistered_bare_string_counterexample:
  "concrete_type_id (errors_New ''Expected'') = Inr ''errors.errorString'' \<and>
   encodableTypes initial ''errors.errorString'' = None \<and>
   round_trip sample_Encode sample_Decode initial (Some (errors_New ''Expected'')) =
     Decoded (Some (errors_New ''Expected'')) \<and>
   concrete_type_id (errors_New ''Expected'') \<noteq> concrete_type_id (gobSafeError ''Expected'')"
proof -
  have c: "carries sample_Encode sample_Decode
     \<lparr>raw_Error = Some (if encodableTypes initial ''errors.errorString'' = None
                         then gobSafeError ''Expected'' else errors_New ''Expected''),
      raw_ErrorsErrorString = True\<rparr>"
    using sample_carries_Expected by (simp add: initial_errorString)
  from errors_New_round_trip [OF c]
  show ?thesis
    by (simp add: concrete_type_id_errors_New concrete_type_id_gobSafeError initial_errorString
        package_path_def)
qed

text \<open>
  C5: encoding the absent (nil) error gives the empty byte sequence and decoding the empty
  byte sequence gives the absent error, whatever the serializer is (it is not called), so
  decoding the encoding of nil gives nil.
\<close>

theorem absent_error_round_trip:
  "GobEncode gob_Encode G \<lparr>ge_Error = None\<rparr> = Inr ([], None) \<and>
   GobDecode gob_Decode g [] = Inr (g\<lparr>ge_Error := None\<rparr>, None) \<and>
   round_trip gob_Encode gob_Decode G None = Decoded None"
  by (simp add: GobEncode_def GobDecode_def round_trip_def)

text \<open>
  C6: encoding a bare string-message error \<^verbatim>\<open>errors.New(s)\<close> hands the serializer an
  envelope with the flag set, and decoding gives \<^verbatim>\<open>errors.New(s)\<close> again: the same bare
  type and the same message, provided the serializer carries the envelope.
\<close>

theorem bare_string_round_trip:
  assumes "carries gob_Encode gob_Decode
             \<lparr>raw_Error = Some (if encodableTypes G ''errors.errorString'' = None
                                 then gobSafeError s else errors_New s),
              raw_ErrorsErrorString = True\<rparr>"
  shows "GobEncode gob_Encode G \<lparr>ge_Error = Some (errors_New s)\<rparr> =
           Inr (gob_Encode
                 \<lparr>raw_Error = Some (if encodableTypes G ''errors.errorString'' = None
                                     then gobSafeError s else errors_New s),
                  raw_ErrorsErrorString = True\<rparr>) \<and>
         round_trip gob_Encode gob_Decode G (Some (errors_New s)) = Decoded (Some (errors_New s))"
  using assms by (rule errors_New_round_trip)

theorem bare_string_round_trip_witness:
  "carries sample_Encode sample_Decode
     \<lparr>raw_Error = Some (gobSafeError ''Expected''), raw_ErrorsErrorString = True\<rparr> \<and>
   GobEncode sample_Encode initial \<lparr>ge_Error = Some (errors_New ''Expected'')\<rparr> =
     Inr (sample_Encode
           \<lparr>raw_Error = Some (gobSafeError ''Expected''), raw_ErrorsErrorString = True\<rparr>) \<and>
   round_trip sample_Encode sample_Decode initial (Some (errors_New ''Expected'')) =
     Decoded (Some (errors_New ''Expected''))"
proof -
  have c: "carries sample_Encode sample_Decode
     \<lparr>raw_Error = Some (if encodableTypes initial ''errors.errorString'' = None
                         then gobSafeError ''Expected'' else errors_New ''Expected''),
      raw_ErrorsErrorString = True\<rparr>"
    using sample_carries_Expected by (simp add: initial_errorString)
  from bare_string_round_trip [OF c] sample_carries_Expected
  show ?thesis by (simp add: initial_errorString)
qed

text \<open>
  C9: a non-nil error interface that holds a nil pointer makes \<^verbatim>\<open>GobEncode\<close> panic: the
  walk ends on the zero Value, and \<^verbatim>\<open>Type\<close> of the zero Value panics. No bytes and no
  error are returned.
\<close>

theorem typed_nil_encode_panics:
  "GobEncode gob_Encode G \<lparr>ge_Error = Some (NilPtr t m)\<rparr> =
     Inl (ReflectValueError ''reflect.Value.Type'')"
  by (simp add: GobEncode_Some concrete_type_id_NilPtr)

text \<open>
  C4: for non-empty bytes on which the deserializer reports an error, \<^verbatim>\<open>GobDecode\<close>
  returns that very error and leaves \<^verbatim>\<open>g.Error\<close> as it was: no panic, and not the nil
  error.
\<close>

theorem malformed_bytes_rejected:
  assumes "data \<noteq> []" and "gob_Decode data = Inl err"
  shows "GobDecode gob_Decode g data = Inr (g, Some err)"
  using assms by (simp add: GobDecode_def)

theorem malformed_bytes_rejected_witness:
  "[0, 1, 2, 3] \<noteq> ([] :: byte list) \<and>
   sample_Decode [0, 1, 2, 3] = Inl sample_error \<and>
   GobDecode sample_Decode \<lparr>ge_Error = None\<rparr> [0, 1, 2, 3] =
     Inr (\<lparr>ge_Error = None\<rparr>, Some sample_error)"
proof -
  have ne: "[0, 1, 2, 3] \<noteq> ([] :: byte list)" by simp
  have bad: "sample_Decode [0, 1, 2, 3] = Inl sample_error"
    by (simp add: sample_Decode_def)
  from malformed_bytes_rejected
    [where gob_Decode = sample_Decode and g = "\<lparr>ge_Error = None\<rparr>", OF ne bad] ne bad
  show ?thesis by simp
qed


section \<open>Properties of snapshots and reconstruction\<close>

lemma sample_reparse: "sample_url_Parse (sample_url_String sample_URL) = (Some sample_URL, None)"
  by (simp add: sample_url_Parse_def sample_url_String_def sample_URL_def)

lemma sample_parse_failure:
  "sample_url_Parse ''://'' =
     (None, Some (PtrTo (Obj ''net/url'' ''Error'' (Some ''missing protocol scheme'') [])))"
  by (simp add: sample_url_Parse_def)

lemma requestResponseVS_Request_None:
  "rr_Request rr = None \<Longrightarrow> rr_Request (requestResponseVS go13plus g rr) = None"
  by (simp add: requestResponseVS_def Let_def split: option.splits)

lemma requestResponseVS_Response_None:
  "rr_Response rr = None \<Longrightarrow> rr_Response (requestResponseVS go13plus g rr) = None"
  by (simp add: requestResponseVS_def Let_def split: option.splits)

lemma convert_request_Response:
  "convert_request url_Parse g rr = Inr rr' \<Longrightarrow> rr_Response rr' = rr_Response rr"
  by (auto simp: convert_request_def split: option.splits prod.splits sum.splits)

lemma RequestResponse_returns:
  assumes "request_parses url_Parse g"
  shows "\<exists>rr. RequestResponse url_Parse go13plus g = Inr rr"
  using assms
  by (auto simp: RequestResponse_def convert_request_def request_parses_def panicIfError_def Let_def
      split: option.splits prod.splits)

lemma RequestResponse_absent_response:
  assumes "gq_Response g = None" and "RequestResponse url_Parse go13plus g = Inr rr"
  shows "rr_Response rr = None"
proof -
  from assms(2) obtain rr1 where one: "convert_request url_Parse g new_RequestResponse = Inr rr1"
    and rr: "rr = (requestResponseVS go13plus g (convert_response g rr1))\<lparr>rr_Error := ge_Error (gq_Error g)\<rparr>"
    by (auto simp: RequestResponse_def Let_def split: sum.splits)
  from convert_request_Response [OF one] have "rr_Response rr1 = None"
    by (simp add: new_RequestResponse_def)
  with assms(1) have "rr_Response (convert_response g rr1) = None"
    by (simp add: convert_response_def)
  from requestResponseVS_Response_None [OF this] rr show ?thesis by simp
qed

lemma RequestResponse_absent_request:
  assumes "gq_Request g = None"
  shows "\<exists>rr. RequestResponse url_Parse go13plus g = Inr rr \<and> rr_Request rr = None"
proof -
  from assms have one: "convert_request url_Parse g new_RequestResponse = Inr new_RequestResponse"
    by (simp add: convert_request_def)
  have "rr_Request (convert_response g new_RequestResponse) = None"
    by (simp add: convert_response_def new_RequestResponse_def split: option.splits)
  from requestResponseVS_Request_None [OF this] one show ?thesis
    by (simp add: RequestResponse_def Let_def)
qed

lemma convert_request_snapshot:
  assumes "gq_Request g = Some r" and "url_Parse (greq_URL r) = (u, None)"
  shows "convert_request url_Parse g rr =
     Inr (rr\<lparr>rr_Request := Some (new_Request
                \<lparr>req_Method := greq_Method r,
                 req_URL := u,
                 req_Proto := greq_Proto r,
                 req_ProtoMajor := greq_ProtoMajor r,
                 req_ProtoMinor := greq_ProtoMinor r,
                 req_Header := greq_Header r,
                 req_ContentLength := greq_ContentLength r,
                 req_TransferEncoding := greq_TransferEncoding r,
                 req_Close := greq_Close r,
                 req_Host := greq_Host r,
                 req_Form := greq_Form r,
                 req_PostForm := greq_PostForm r,
                 req_Trailer := greq_Trailer r,
                 req_RemoteAddr := greq_RemoteAddr r,
                 req_RequestURI := greq_RequestURI r\<rparr>),
             rr_RequestBody := greq_Body r,
             rr_RequestBodyError := ge_Error (greq_Error r)\<rparr>)"
  using assms by (simp add: convert_request_def panicIfError_def)

lemma convert_response_Request:
  "rr_Request (convert_response g rr) = rr_Request rr \<and>
   rr_RequestBody (convert_response g rr) = rr_RequestBody rr \<and>
   rr_RequestBodyError (convert_response g rr) = rr_RequestBodyError rr"
  by (simp add: convert_response_def split: option.splits)

lemma requestResponseVS_Request:
  assumes "gq_Request g = Some r" and "rr_Request rr = Some request"
  shows "rr_Request (requestResponseVS go13plus g rr) =
           Some (if go13plus then request\<lparr>req_TLS := greq_TLS r\<rparr> else request) \<and>
         rr_RequestBody (requestResponseVS go13plus g rr) = rr_RequestBody rr \<and>
         rr_RequestBodyError (requestResponseVS go13plus g rr) = rr_RequestBodyError rr"
  using assms by (simp add: requestResponseVS_def Let_def split: option.splits)

lemma snapshot_reconstructed:
  assumes url: "req_URL req = Some u"
    and parse: "url_Parse (url_String u) = (u', None)"
  shows "\<exists>snapshot. newGobRequest url_String go13plus (Some req) = Inr (Some snapshot) \<and>
           greq_Body snapshot = [] \<and> ge_Error (greq_Error snapshot) = None \<and>
           (\<exists>rr. RequestResponse url_Parse go13plus
                   (g\<lparr>gq_Request :=
                        Some (snapshot\<lparr>greq_Body := body, greq_Error := \<lparr>ge_Error = err\<rparr>\<rparr>)\<rparr>) =
                 Inr rr \<and>
               rr_Request rr =
                 Some (req\<lparr>req_URL := u', req_Body := None,
                           req_TLS := (if go13plus then req_TLS req else None)\<rparr>) \<and>
               rr_RequestBody rr = body \<and> rr_RequestBodyError rr = err)"
proof -
  define snapshot where "snapshot = newGobRequestVS go13plus req
                 (new_gobRequest
                    \<lparr>greq_Method := req_Method req,
                     greq_URL := url_String u,
                     greq_Proto := req_Proto req,
                     greq_ProtoMajor := req_ProtoMajor req,
                     greq_ProtoMinor := req_ProtoMinor req,
                     greq_Header := req_Header req,
                     greq_ContentLength := req_ContentLength req,
                     greq_TransferEncoding := req_TransferEncoding req,
                     greq_Close := req_Close req,
                     greq_Host := req_Host req,
                     greq_Form := req_Form req,
                     greq_PostForm := req_PostForm req,
                     greq_Trailer := req_Trailer req,
                     greq_RemoteAddr := req_RemoteAddr req,
                     greq_RequestURI := req_RequestURI req\<rparr>)"
  define r where "r = snapshot\<lparr>greq_Body := body, greq_Error := \<lparr>ge_Error = err\<rparr>\<rparr>"
  define g' where "g' = g\<lparr>gq_Request := Some r\<rparr>"
  from url have built: "newGobRequest url_String go13plus (Some req) = Inr (Some snapshot)"
    by (simp add: newGobRequest_def URL_String_def snapshot_def)
  have empty: "greq_Body snapshot = [] \<and> ge_Error (greq_Error snapshot) = None"
    by (simp add: snapshot_def newGobRequestVS_def new_gobRequest_def)
  have greq: "gq_Request g' = Some r" by (simp add: g'_def)
  have "greq_URL r = url_String u"
    by (simp add: r_def snapshot_def newGobRequestVS_def)
  with parse have parsed: "url_Parse (greq_URL r) = (u', None)" by simp
  define request where "request = new_Request
                \<lparr>req_Method := greq_Method r,
                 req_URL := u',
                 req_Proto := greq_Proto r,
                 req_ProtoMajor := greq_ProtoMajor r,
                 req_ProtoMinor := greq_ProtoMinor r,
                 req_Header := greq_Header r,
                 req_ContentLength := greq_ContentLength r,
                 req_TransferEncoding := greq_TransferEncoding r,
                 req_Close := greq_Close r,
                 req_Host := greq_Host r,
                 req_Form := greq_Form r,
                 req_PostForm := greq_PostForm r,
                 req_Trailer := greq_Trailer r,
                 req_RemoteAddr := greq_RemoteAddr r,
                 req_RequestURI := greq_RequestURI r\<rparr>"
  define rr1 where "rr1 = new_RequestResponse
      \<lparr>rr_Request := Some request, rr_RequestBody := greq_Body r,
       rr_RequestBodyError := ge_Error (greq_Error r)\<rparr>"
  from convert_request_snapshot
    [where url_Parse = url_Parse and rr = new_RequestResponse, OF greq parsed]
  have one: "convert_request url_Parse g' new_RequestResponse = Inr rr1"
    by (simp add: rr1_def request_def)
  define rr2 where "rr2 = convert_response g' rr1"
  define rr3 where "rr3 = requestResponseVS go13plus g' rr2"
  define rr where "rr = rr3\<lparr>rr_Error := ge_Error (gq_Error g')\<rparr>"
  from one have result: "RequestResponse url_Parse go13plus g' = Inr rr"
    by (simp add: RequestResponse_def Let_def rr_def rr3_def rr2_def)
  have two: "rr_Request rr2 = Some request \<and> rr_RequestBody rr2 = body \<and>
             rr_RequestBodyError rr2 = err"
    using convert_response_Request [of g' rr1] by (simp add: rr2_def rr1_def r_def)
  then have "rr_Request rr2 = Some request" by simp
  from requestResponseVS_Request [OF greq this, of go13plus] two
  have three: "rr_Request rr3 =
                 Some (if go13plus then request\<lparr>req_TLS := greq_TLS r\<rparr> else request) \<and>
               rr_RequestBody rr3 = body \<and> rr_RequestBodyError rr3 = err"
    by (simp add: rr3_def)
  have same: "(if go13plus then request\<lparr>req_TLS := greq_TLS r\<rparr> else request) =
      req\<lparr>req_URL := u', req_Body := None,
          req_TLS := (if go13plus then req_TLS req else None)\<rparr>"
    by (cases req)
      (simp add: request_def r_def snapshot_def newGobRequestVS_def new_gobRequest_def
        new_Request_def)
  from three same have "rr_Request rr =
      Some (req\<lparr>req_URL := u', req_Body := None,
                req_TLS := (if go13plus then req_TLS req else None)\<rparr>) \<and>
      rr_RequestBody rr = body \<and> rr_RequestBodyError rr = err"
    by (simp add: rr_def)
  with built empty result show ?thesis
    unfolding g'_def r_def by blast
qed

text \<open>
  C3: when the query holds a request snapshot and \<^verbatim>\<open>url.Parse\<close> reports an error on its
  URL string, \<^verbatim>\<open>RequestResponse\<close> panics with a \<^verbatim>\<open>dvrFailure\<close> that holds the error: no
  result is returned, whatever the rest of the query is. The test's query, whose URL is
  \<^verbatim>\<open>://\<close>, is the example below.
\<close>

theorem url_parse_failure_is_fatal:
  assumes "gq_Request g = Some r" and "url_Parse (greq_URL r) = (u, Some err)"
  shows "RequestResponse url_Parse go13plus g = Inl (DvrFailure err)"
  using assms by (simp add: RequestResponse_def convert_request_def panicIfError_def)

theorem url_parse_failure_is_fatal_witness:
  "gq_Request \<lparr>gq_Request = Some (new_gobRequest\<lparr>greq_URL := ''://''\<rparr>), gq_Response = None,
                gq_Error = \<lparr>ge_Error = None\<rparr>\<rparr> =
     Some (new_gobRequest\<lparr>greq_URL := ''://''\<rparr>) \<and>
   sample_url_Parse (greq_URL (new_gobRequest\<lparr>greq_URL := ''://''\<rparr>)) =
     (None, Some (PtrTo (Obj ''net/url'' ''Error'' (Some ''missing protocol scheme'') []))) \<and>
   RequestResponse sample_url_Parse True
     \<lparr>gq_Request = Some (new_gobRequest\<lparr>greq_URL := ''://''\<rparr>), gq_Response = None,
      gq_Error = \<lparr>ge_Error = None\<rparr>\<rparr> =
     Inl (DvrFailure (PtrTo (Obj ''net/url'' ''Error'' (Some ''missing protocol scheme'') [])))"
proof -
  let ?r = "new_gobRequest\<lparr>greq_URL := ''://''\<rparr>"
  let ?g = "\<lparr>gq_Request = Some ?r, gq_Response = None, gq_Error = \<lparr>ge_Error = None\<rparr>\<rparr>"
  have req: "gq_Request ?g = Some ?r" by simp
  have bad: "sample_url_Parse (greq_URL ?r) =
      (None, Some (PtrTo (Obj ''net/url'' ''Error'' (Some ''missing protocol scheme'') [])))"
    by (simp add: sample_parse_failure)
  from url_parse_failure_is_fatal
    [where url_Parse = sample_url_Parse and go13plus = True, OF req bad] req bad
  show ?thesis by simp
qed

text \<open>
  C7, as amended: for a live request with a URL whose string form parses again,
  \<^verbatim>\<open>newGobRequest\<close> builds a snapshot with an empty body and no body error, and
  reconstructing from that snapshot, with whatever body bytes and body error the caller has
  stored in it, gives those bytes and that error and a request that equals the original in
  every field but three: the URL is the re-parse of the original's string form, the
  \<^verbatim>\<open>Body\<close> reader is nil, and the TLS state is the original's with Go 1.3 or later and nil
  before.
\<close>

theorem field_round_trip:
  assumes "req_URL req = Some u" and "url_Parse (url_String u) = (u', None)"
  shows "\<exists>snapshot. newGobRequest url_String go13plus (Some req) = Inr (Some snapshot) \<and>
           greq_Body snapshot = [] \<and> ge_Error (greq_Error snapshot) = None \<and>
           (\<exists>rr. RequestResponse url_Parse go13plus
                   (g\<lparr>gq_Request :=
                        Some (snapshot\<lparr>greq_Body := body, greq_Error := \<lparr>ge_Error = err\<rparr>\<rparr>)\<rparr>) =
                 Inr rr \<and>
               rr_Request rr =
                 Some (req\<lparr>req_URL := u', req_Body := None,
                           req_TLS := (if go13plus then req_TLS req else None)\<rparr>) \<and>
               rr_RequestBody rr = body \<and> rr_RequestBodyError rr = err)"
  using assms by (rule snapshot_reconstructed)

theorem field_round_trip_witness:
  "req_URL sample_Request = Some sample_URL \<and>
   sample_url_Parse (sample_url_String sample_URL) = (Some sample_URL, None) \<and>
   (\<exists>snapshot. newGobRequest sample_url_String True (Some sample_Request) = Inr (Some snapshot) \<and>
      greq_Body snapshot = [] \<and> ge_Error (greq_Error snapshot) = None \<and>
      (\<exists>rr. RequestResponse sample_url_Parse True
              (\<lparr>gq_Request = None, gq_Response = None, gq_Error = \<lparr>ge_Error = None\<rparr>\<rparr>
                 \<lparr>gq_Request :=
                    Some (snapshot\<lparr>greq_Body := [104, 105],
                                   greq_Error := \<lparr>ge_Error = None\<rparr>\<rparr>)\<rparr>) = Inr rr \<and>
          rr_Request rr =
            Some (sample_Request\<lparr>req_URL := Some sample_URL, req_Body := None,
                                 req_TLS := (if True then req_TLS sample_Request else None)\<rparr>) \<and>
          rr_RequestBody rr = [104, 105] \<and> rr_RequestBodyError rr = None))"
proof -
  have url: "req_URL sample_Request = Some sample_URL" by (simp add: sample_Request_def)
  from field_round_trip [where url_Parse = sample_url_Parse and url_String = sample_url_String,
      OF url sample_reparse] url sample_reparse
  show ?thesis by blast
qed

text \<open>
  C7 as stated fails on the body: \<^verbatim>\<open>newGobRequest\<close> does not read the body of the live
  request, so for a request whose body delivers two bytes the reconstruction gives no body
  bytes, and a request whose \<^verbatim>\<open>Body\<close> is nil.
\<close>

theorem snapshot_body_counterexample:
  "req_Body sample_Request = Some ([104, 105], None) \<and>
   (case snapshot_and_reconstruct sample_url_String sample_url_Parse True (Some sample_Request) of
      Inl p \<Rightarrow> None
    | Inr rr \<Rightarrow> Some (rr_RequestBody rr, map_option req_Body (rr_Request rr))) =
     Some ([], Some None)"
proof -
  have url: "req_URL sample_Request = Some sample_URL" by (simp add: sample_Request_def)
  from snapshot_reconstructed
    [where url_Parse = sample_url_Parse and url_String = sample_url_String and go13plus = True
       and g = "\<lparr>gq_Request = None, gq_Response = None, gq_Error = \<lparr>ge_Error = None\<rparr>\<rparr>"
       and body = "[]" and err = None, OF url sample_reparse]
  obtain snapshot rr where built:
      "newGobRequest sample_url_String True (Some sample_Request) = Inr (Some snapshot)"
    and empty: "greq_Body snapshot = []" "ge_Error (greq_Error snapshot) = None"
    and result: "RequestResponse sample_url_Parse True
        \<lparr>gq_Request = Some (snapshot\<lparr>greq_Body := [], greq_Error := \<lparr>ge_Error = None\<rparr>\<rparr>),
         gq_Response = None, gq_Error = \<lparr>ge_Error = None\<rparr>\<rparr> = Inr rr"
    and request: "rr_Request rr =
        Some (sample_Request\<lparr>req_URL := Some sample_URL, req_Body := None,
                             req_TLS := req_TLS sample_Request\<rparr>)"
    and body: "rr_RequestBody rr = []"
    by auto
  from empty(2) have "greq_Error snapshot = \<lparr>ge_Error = None\<rparr>"
    by (cases "greq_Error snapshot") simp
  with empty(1) have "snapshot\<lparr>greq_Body := [], greq_Error := \<lparr>ge_Error = None\<rparr>\<rparr> = snapshot"
    by (cases snapshot) simp
  with built result request body show ?thesis
    by (simp add: snapshot_and_reconstruct_def sample_Request_def)
qed

text \<open>
  C8: the snapshot of a nil request or response is nil, and no panic; reconstructing a query
  without a request snapshot returns a result without a request; a query without a response
  snapshot never gives a result with a response, and gives a result whenever the URL of
  its request snapshot (if any) parses.
\<close>

theorem nil_passthrough:
  "newGobRequest url_String go13plus None = Inr None \<and>
   NewGobRequest url_String go13plus None = Inr None \<and>
   newGobResponse go13plus None = None \<and>
   (gq_Request g = None \<longrightarrow>
      (\<exists>rr. RequestResponse url_Parse go13plus g = Inr rr \<and> rr_Request rr = None)) \<and>
   (gq_Response g = None \<longrightarrow>
      (\<forall>rr. RequestResponse url_Parse go13plus g = Inr rr \<longrightarrow> rr_Response rr = None) \<and>
      (request_parses url_Parse g \<longrightarrow>
         (\<exists>rr. RequestResponse url_Parse go13plus g = Inr rr \<and> rr_Response rr = None)))"
proof -
  have "gq_Response g = None \<Longrightarrow> request_parses url_Parse g \<Longrightarrow>
      \<exists>rr. RequestResponse url_Parse go13plus g = Inr rr \<and> rr_Response rr = None"
    using RequestResponse_returns RequestResponse_absent_response by blast
  then show ?thesis
    using RequestResponse_absent_request [of g url_Parse go13plus]
      RequestResponse_absent_response [of g url_Parse go13plus]
    by (auto simp: newGobRequest_def NewGobRequest_def newGobResponse_def)
qed


theorem nil_passthrough_witness:
  "gq_Request \<lparr>gq_Request = None, gq_Response = Some new_gobResponse,
                gq_Error = \<lparr>ge_Error = None\<rparr>\<rparr> = None \<and>
   (\<exists>rr. RequestResponse sample_url_Parse True
           \<lparr>gq_Request = None, gq_Response = Some new_gobResponse,
            gq_Error = \<lparr>ge_Error = None\<rparr>\<rparr> = Inr rr \<and>
         rr_Request rr = None) \<and>
   gq_Response \<lparr>gq_Request = Some (new_gobRequest\<lparr>greq_URL := ''https://example.com/items''\<rparr>),
                 gq_Response = None, gq_Error = \<lparr>ge_Error = None\<rparr>\<rparr> = None \<and>
   request_parses sample_url_Parse
     \<lparr>gq_Request = Some (new_gobRequest\<lparr>greq_URL := ''https://example.com/items''\<rparr>),
      gq_Response = None, gq_Error = \<lparr>ge_Error = None\<rparr>\<rparr> \<and>
   (\<exists>rr. RequestResponse sample_url_Parse True
           \<lparr>gq_Request = Some (new_gobRequest\<lparr>greq_URL := ''https://example.com/items''\<rparr>),
            gq_Response = None, gq_Error = \<lparr>ge_Error = None\<rparr>\<rparr> = Inr rr \<and>
         rr_Response rr = None)"
proof -
  let ?g1 = "\<lparr>gq_Request = None, gq_Response = Some new_gobResponse,
             gq_Error = \<lparr>ge_Error = None\<rparr>\<rparr>"
  let ?g2 = "\<lparr>gq_Request = Some (new_gobRequest\<lparr>greq_URL := ''https://example.com/items''\<rparr>),
             gq_Response = None, gq_Error = \<lparr>ge_Error = None\<rparr>\<rparr>"
  have a: "gq_Request ?g1 = None" by simp
  have b: "gq_Response ?g2 = None" by simp
  have c: "request_parses sample_url_Parse ?g2"
    by (simp add: request_parses_def sample_url_Parse_def)
  from nil_passthrough [where g = ?g1 and url_Parse = sample_url_Parse and go13plus = True] a
  have one: "\<exists>rr. RequestResponse sample_url_Parse True ?g1 = Inr rr \<and> rr_Request rr = None"
    by blast
  from nil_passthrough [where g = ?g2 and url_Parse = sample_url_Parse and go13plus = True] b c
  have two: "\<exists>rr. RequestResponse sample_url_Parse True ?g2 = Inr rr \<and> rr_Response rr = None"
    by blast
  from a b c one two show ?thesis by blast
qed

text \<open>
  C10: for a live request whose URL is nil, \<^verbatim>\<open>NewGobRequest\<close> panics with a nil
  dereference and returns neither a snapshot nor an error.
\<close>

theorem nil_URL_snapshot_panics:
  assumes "req_URL req = None"
  shows "NewGobRequest url_String go13plus (Some req) = Inl NilDereference"
  using assms by (simp add: NewGobRequest_def URL_String_def)

theorem nil_URL_snapshot_panics_witness:
  "req_URL (sample_Request\<lparr>req_URL := None\<rparr>) = None \<and>
   NewGobRequest sample_url_String True (Some (sample_Request\<lparr>req_URL := None\<rparr>)) =
     Inl NilDereference"
proof -
  have nil: "req_URL (sample_Request\<lparr>req_URL := None\<rparr>) = None" by simp
  from nil_URL_snapshot_panics [OF nil] nil show ?thesis by simp
qed

end
